theory Spec2Isabelle
  imports Complex_Main
begin

section \<open>The simulation state of script.js\<close>

text \<open>
  The script keeps one object \<^verbatim>\<open>state\<close> and the module-level variables
  \<^verbatim>\<open>simRunning\<close>, \<^verbatim>\<open>dragging\<close>, \<^verbatim>\<open>lastTime\<close>, \<^verbatim>\<open>width\<close>, \<^verbatim>\<open>height\<close>; it reads three form
  controls of the page. The record below gathers them: a field \<open>state_f\<close> is
  \<^verbatim>\<open>state.f\<close>, the fields \<open>toggleFriction_checked\<close>, \<open>sliderFriction_value\<close> and
  \<open>sliderGravity_value\<close> are what the page's controls hold (the slider values after
  \<^verbatim>\<open>parseFloat\<close>).

  JavaScript numbers are modelled as real numbers: rounding, infinities and NaN of the
  IEEE doubles are outside of this model. A number is falsy in a condition exactly
  when it is zero.
\<close>

record world =
  state_x :: real
  state_y :: real
  state_v :: real
  state_mass :: real
  state_gravity :: real
  state_friction :: real
  state_thermalEnergy :: real
  state_initialTotalEnergy :: real
  state_trackScale :: real
  state_pixelsPerMeter :: real
  simRunning :: bool
  dragging :: bool
  lastTime :: real
  canvas_width :: real
  canvas_height :: real
  toggleFriction_checked :: bool
  sliderFriction_value :: real
  sliderGravity_value :: real

text \<open>The truth value of a number in a condition (\<^verbatim>\<open>if (n)\<close>, \<^verbatim>\<open>!n\<close>).\<close>

definition truthy :: "real \<Rightarrow> bool" where
  "truthy n = (n \<noteq> 0)"

text \<open>\<^verbatim>\<open>Math.hypot\<close> of two arguments.\<close>

definition hypot :: "real \<Rightarrow> real \<Rightarrow> real" where
  "hypot a b = sqrt (a * a + b * b)"

text \<open>
  The object literal of lines 27 to 38 with the initial values of the module-level
  variables; the canvas size and the controls of the page are parameters.
\<close>

definition state0 :: "real \<Rightarrow> real \<Rightarrow> bool \<Rightarrow> real \<Rightarrow> real \<Rightarrow> world" where
  "state0 cw ch fchk fval gval =
     \<lparr> state_x = 0, state_y = 0, state_v = 0, state_mass = 1, state_gravity = 9.8,
       state_friction = 0.0, state_thermalEnergy = 0, state_initialTotalEnergy = 0,
       state_trackScale = 0.005, state_pixelsPerMeter = 100,
       simRunning = False, dragging = False, lastTime = 0,
       canvas_width = cw, canvas_height = ch,
       toggleFriction_checked = fchk, sliderFriction_value = fval,
       sliderGravity_value = gval \<rparr>"

section \<open>Track and integrator\<close>

definition updatePositionFromX :: "world \<Rightarrow> world" where
  "updatePositionFromX w = w\<lparr> state_y := state_trackScale w * state_x w * state_x w \<rparr>"

text \<open>
  \<^verbatim>\<open>updatePhysics(dt)\<close>, lines 93 to 124, statement by statement: \<open>w1\<close> is the
  world after \<^verbatim>\<open>state.v += a_t * dt\<close>, \<open>w2\<close> after \<^verbatim>\<open>state.x += ...\<close>.
\<close>

definition updatePhysics :: "real \<Rightarrow> world \<Rightarrow> world" where
  "updatePhysics dt w =
     (let slope = 2 * state_trackScale w * state_x w;
          g = state_gravity w * 20;
          sinTheta = slope / sqrt (1 + slope * slope);
          a_t0 = - g * sinTheta;
          a_t = (if state_friction w > 0
                 then (let frictionForce = - state_friction w * state_v w
                       in a_t0 + frictionForce)
                 else a_t0);
          w1 = w\<lparr> state_v := state_v w + a_t * dt \<rparr>;
          cosTheta = 1 / sqrt (1 + slope * slope);
          w2 = w1\<lparr> state_x := state_x w1 + state_v w1 * cosTheta * dt \<rparr>
      in updatePositionFromX w2)"

section \<open>Energy ledger\<close>

text \<open>What \<^verbatim>\<open>updateCharts\<close> shows: the four energies and the denominator of the bars.\<close>

record report =
  r_pe :: real
  r_ke :: real
  r_thermal :: real
  r_total :: real
  r_maxE :: real

definition scaleE :: real where
  "scaleE = 0.0005"

definition pe_of :: "world \<Rightarrow> real" where
  "pe_of w = state_mass w * (state_gravity w * 20) * state_y w * scaleE"

definition ke_of :: "world \<Rightarrow> real" where
  "ke_of w = 0.5 * state_mass w * state_v w * state_v w * scaleE"

text \<open>The guard of line 169: the lazy capture of the baseline.\<close>

definition lazy_capture :: "world \<Rightarrow> bool" where
  "lazy_capture w = (\<not> truthy (state_initialTotalEnergy w) \<and> pe_of w + ke_of w > 0)"

text \<open>
  \<^verbatim>\<open>updateCharts()\<close>, lines 160 to 204: the world it leaves and the values it writes to
  the page. \<open>w1\<close> is the world after the first conditional, \<open>w2\<close> after the second.
\<close>

definition updateCharts :: "world \<Rightarrow> world \<times> report" where
  "updateCharts w =
     (let pe = pe_of w;
          ke = ke_of w;
          w1 = (if lazy_capture w then w\<lparr> state_initialTotalEnergy := pe + ke \<rparr> else w);
          w2 = (if dragging w1
                then w1\<lparr> state_initialTotalEnergy := pe + ke, state_thermalEnergy := 0 \<rparr>
                else w1);
          thermal = (if truthy (state_initialTotalEnergy w2)
                     then (let t = state_initialTotalEnergy w2 - (pe + ke)
                           in if t < 0 then 0 else t)
                     else 0);
          total = pe + ke + thermal;
          maxE = max total 10
      in (w2, \<lparr> r_pe = pe, r_ke = ke, r_thermal = thermal, r_total = total,
                r_maxE = maxE \<rparr>))"

text \<open>The widths of the three bars, in percent (lines 195 to 197).\<close>

definition barPotential_width :: "report \<Rightarrow> real" where
  "barPotential_width r = (r_pe r / r_maxE r) * 100"

definition barKinetic_width :: "report \<Rightarrow> real" where
  "barKinetic_width r = (r_ke r / r_maxE r) * 100"

definition barThermal_width :: "report \<Rightarrow> real" where
  "barThermal_width r = (r_thermal r / r_maxE r) * 100"

text \<open>\<^verbatim>\<open>draw()\<close>: the centre of the ball on the canvas (lines 129, 130, 145, 146).\<close>

definition draw :: "world \<Rightarrow> real \<times> real" where
  "draw w =
     (let centerX = canvas_width w / 2;
          bottomY = canvas_height w - 50
      in (centerX + state_x w, bottomY - state_y w))"

section \<open>Controller\<close>

definition resetSimulation :: "world \<Rightarrow> world" where
  "resetSimulation w =
     (let w1 = w\<lparr> state_x := - 100, state_v := 0, state_thermalEnergy := 0,
                  state_initialTotalEnergy := 0,
                  state_friction := (if toggleFriction_checked w
                                     then sliderFriction_value w else 0),
                  state_gravity := sliderGravity_value w \<rparr>;
          w2 = updatePositionFromX w1;
          w3 = w2\<lparr> simRunning := False \<rparr>
      in fst (updateCharts w3))"

definition resize :: "real \<Rightarrow> real \<Rightarrow> world \<Rightarrow> world" where
  "resize cw ch w = w\<lparr> canvas_width := cw, canvas_height := ch \<rparr>"

text \<open>The \<^verbatim>\<open>for\<close> loop of lines 83 to 85.\<close>

function subStepLoop :: "nat \<Rightarrow> nat \<Rightarrow> real \<Rightarrow> world \<Rightarrow> world" where
  "subStepLoop i subSteps subDt w =
     (if i < subSteps then subStepLoop (Suc i) subSteps subDt (updatePhysics subDt w)
      else w)"
  by pat_completeness auto
termination
  by (relation "measure (\<lambda>(i, subSteps, subDt, w). subSteps - i)") auto

declare subStepLoop.simps [simp del]

text \<open>The step length of a frame: lines 73 to 77.\<close>

definition frame_dt :: "real \<Rightarrow> world \<Rightarrow> real" where
  "frame_dt timestamp w =
     (let lastTime0 = (if \<not> truthy (lastTime w) then timestamp else lastTime w);
          dt = (timestamp - lastTime0) / 1000
      in if dt > 0.1 then 0.1 else dt)"

text \<open>
  \<^verbatim>\<open>loop(timestamp)\<close>: the world after the frame, the ball centre drawn and the
  energies shown.
\<close>

definition loop :: "real \<Rightarrow> world \<Rightarrow> world \<times> (real \<times> real) \<times> report" where
  "loop timestamp w =
     (let dt = frame_dt timestamp w;
          w1 = w\<lparr> lastTime := timestamp \<rparr>;
          w2 = (if simRunning w1 \<and> \<not> dragging w1
                then (let subSteps = 10; subDt = dt / real subSteps
                      in subStepLoop 0 subSteps subDt w1)
                else w1);
          ball = draw w2;
          (w3, rep) = updateCharts w2
      in (w3, ball, rep))"

text \<open>
  A pointer event as the handlers read it: the client coordinates of the mouse or of
  the first touch, and the top left corner of the canvas rectangle.
\<close>

record pointer =
  clientX :: real
  clientY :: real
  rect_left :: real
  rect_top :: real

definition grab_dist :: "pointer \<Rightarrow> world \<Rightarrow> real" where
  "grab_dist e w =
     (let mouseX = clientX e - rect_left e;
          mouseY = clientY e - rect_top e;
          centerX = canvas_width w / 2;
          bottomY = canvas_height w - 50;
          ballX = centerX + state_x w;
          ballY = bottomY - state_y w
      in hypot (mouseX - ballX) (mouseY - ballY))"

definition startDrag :: "pointer \<Rightarrow> world \<Rightarrow> world" where
  "startDrag e w =
     (if grab_dist e w < 40
      then w\<lparr> dragging := True, simRunning := False, state_v := 0 \<rparr>
      else w)"

definition drag :: "pointer \<Rightarrow> world \<Rightarrow> world" where
  "drag e w =
     (if \<not> dragging w then w
      else (let mouseX = clientX e - rect_left e;
                centerX = canvas_width w / 2;
                w1 = updatePositionFromX (w\<lparr> state_x := mouseX - centerX \<rparr>);
                w2 = w1\<lparr> state_thermalEnergy := 0, state_initialTotalEnergy := 0 \<rparr>
            in fst (updateCharts w2)))"

definition endDrag :: "world \<Rightarrow> world" where
  "endDrag w = w\<lparr> dragging := False \<rparr>"

definition clickStartPause :: "world \<Rightarrow> world" where
  "clickStartPause w = w\<lparr> simRunning := \<not> simRunning w \<rparr>"

text \<open>
  The three listeners of the controls. The page has set the control to its new value
  when the listener runs.
\<close>

definition changeToggleFriction :: "bool \<Rightarrow> world \<Rightarrow> world" where
  "changeToggleFriction isChecked w =
     (let w1 = w\<lparr> toggleFriction_checked := isChecked \<rparr>
      in w1\<lparr> state_friction := (if isChecked then sliderFriction_value w1 else 0) \<rparr>)"

definition inputSliderFriction :: "real \<Rightarrow> world \<Rightarrow> world" where
  "inputSliderFriction val w =
     (let w1 = w\<lparr> sliderFriction_value := val \<rparr>
      in w1\<lparr> state_friction := (if toggleFriction_checked w1 then val else 0) \<rparr>)"

definition inputSliderGravity :: "real \<Rightarrow> world \<Rightarrow> world" where
  "inputSliderGravity val w =
     (let w1 = w\<lparr> sliderGravity_value := val \<rparr>
      in w1\<lparr> state_gravity := val \<rparr>)"

text \<open>Everything that can happen to the page once the script has run.\<close>

datatype event =
    Frame real
  | MouseDown pointer
  | MouseMove pointer
  | MouseUp
  | ClickStartPause
  | ClickReset
  | ChangeToggleFriction bool
  | InputSliderFriction real
  | InputSliderGravity real
  | Resize real real

fun handle :: "event \<Rightarrow> world \<Rightarrow> world" where
  "handle (Frame timestamp) w = fst (loop timestamp w)"
| "handle (MouseDown e) w = startDrag e w"
| "handle (MouseMove e) w = drag e w"
| "handle MouseUp w = endDrag w"
| "handle ClickStartPause w = clickStartPause w"
| "handle ClickReset w = resetSimulation w"
| "handle (ChangeToggleFriction b) w = changeToggleFriction b w"
| "handle (InputSliderFriction val) w = inputSliderFriction val w"
| "handle (InputSliderGravity val) w = inputSliderGravity val w"
| "handle (Resize cw ch) w = resize cw ch w"

fun run :: "event list \<Rightarrow> world \<Rightarrow> world" where
  "run [] w = w"
| "run (ev # evs) w = run evs (handle ev w)"

text \<open>
  The last three lines of the script: \<^verbatim>\<open>resize(); resetSimulation();\<close> and the first
  request of a frame. \<open>boot\<close> is the world in which the first event arrives.
\<close>

definition boot :: "real \<Rightarrow> real \<Rightarrow> bool \<Rightarrow> real \<Rightarrow> real \<Rightarrow> world" where
  "boot cw ch fchk fval gval = resetSimulation (resize cw ch (state0 cw ch fchk fval gval))"

text \<open>The three states of the controller, read off the two flags.\<close>

datatype mode = Idle | Running | Dragging

definition mode_of :: "world \<Rightarrow> mode" where
  "mode_of w = (if dragging w then Dragging else if simRunning w then Running else Idle)"

section \<open>The integrator as the specification words it\<close>

definition TrackModel_height :: "real \<Rightarrow> real \<Rightarrow> real" where
  "TrackModel_height k xx = k * xx ^ 2"

definition TrackModel_slope :: "real \<Rightarrow> real \<Rightarrow> real" where
  "TrackModel_slope k xx = 2 * k * xx"

definition sin_theta :: "real \<Rightarrow> real" where
  "sin_theta slope = slope / sqrt (1 + slope ^ 2)"

definition cos_theta :: "real \<Rightarrow> real" where
  "cos_theta slope = 1 / sqrt (1 + slope ^ 2)"

definition SCALE_G :: real where
  "SCALE_G = 20"

text \<open>
  The six steps of the specification's \<open>advance\<close>, on the position \<open>xx\<close> and the
  velocity \<open>vv\<close>, with curvature \<open>k\<close>, gravity \<open>grav\<close> and friction coefficient \<open>mu\<close>:
  the result is the triple of the new position, height and velocity.
\<close>

definition advance_spec :: "real \<Rightarrow> real \<Rightarrow> real \<Rightarrow> real \<Rightarrow> real \<Rightarrow> real \<Rightarrow> real \<times> real \<times> real" where
  "advance_spec k grav mu dt xx vv =
     (let slope = TrackModel_slope k xx;
          a0 = - (grav * SCALE_G) * sin_theta slope;
          a = (if mu > 0 then a0 + (- mu * vv) else a0);
          v' = vv + a * dt;
          x' = xx + v' * cos_theta slope * dt;
          y' = TrackModel_height k x'
      in (x', y', v'))"

section \<open>The track invariant and two concrete pages\<close>

text \<open>The height is the height of the track at the position.\<close>

definition on_track :: "world \<Rightarrow> bool" where
  "on_track w = (state_y w = state_trackScale w * (state_x w) ^ 2)"

text \<open>
  The page after the script has run, on a canvas of 800 by 600 pixels with the friction
  switch off and the friction slider at 0.1: \<open>page0\<close> with the gravity slider at 9.8,
  \<open>page_g0\<close> with the gravity slider at 0. The ball is drawn at (300, 500), where
  \<open>grab_pt\<close> points.
\<close>

definition page0 :: world where
  "page0 = boot 800 600 False 0.1 9.8"

definition page_g0 :: world where
  "page_g0 = boot 800 600 False 0.1 0"

definition grab_pt :: pointer where
  "grab_pt = \<lparr> clientX = 300, clientY = 500, rect_left = 0, rect_top = 0 \<rparr>"

text \<open>
  A trace on the page with gravity 0: the ball is grabbed (\<open>c2_dragged\<close>); a frame
  passes, the ball is released and the gravity slider is moved to 9.8 (\<open>c2_released\<close>).
\<close>

definition c2_dragged :: world where
  "c2_dragged = run [MouseDown grab_pt] page_g0"

definition c2_released :: world where
  "c2_released = run [Frame 16, MouseUp, InputSliderGravity 9.8] c2_dragged"

section \<open>Theorems\<close>

subsection \<open>Auxiliary facts\<close>

lemma updatePhysics_advance:
  "updatePhysics dt w =
     (case advance_spec (state_trackScale w) (state_gravity w) (state_friction w) dt
             (state_x w) (state_v w) of
        (x', y', v') \<Rightarrow> w\<lparr> state_v := v', state_x := x', state_y := y' \<rparr>)"
  by (simp add: updatePhysics_def updatePositionFromX_def advance_spec_def Let_def
      TrackModel_slope_def TrackModel_height_def sin_theta_def cos_theta_def SCALE_G_def
      power2_eq_square)

lemma sin_theta_minus: "sin_theta (- s) = - sin_theta s"
  by (simp add: sin_theta_def)

lemma cos_theta_minus: "cos_theta (- s) = cos_theta s"
  by (simp add: cos_theta_def)

lemma TrackModel_slope_minus: "TrackModel_slope k (- xx) = - TrackModel_slope k xx"
  by (simp add: TrackModel_slope_def)

lemma TrackModel_height_minus: "TrackModel_height k (- xx) = TrackModel_height k xx"
  by (simp add: TrackModel_height_def)

lemma advance_spec_odd:
  "advance_spec k grav mu dt (- xx) (- vv) =
     (case advance_spec k grav mu dt xx vv of (x', y', v') \<Rightarrow> (- x', y', - v'))"
proof -
  define s where "s = TrackModel_slope k xx"
  define a where "a = (if mu > 0 then - (grav * SCALE_G) * sin_theta s + (- mu * vv)
                       else - (grav * SCALE_G) * sin_theta s)"
  have a': "(if mu > 0 then - (grav * SCALE_G) * sin_theta (- s) + (- mu * (- vv))
             else - (grav * SCALE_G) * sin_theta (- s)) = - a"
    by (simp add: a_def sin_theta_minus)
  have v': "- vv + (- a) * dt = - (vv + a * dt)"
    by (simp add: algebra_simps)
  have x': "- xx + (- (vv + a * dt)) * cos_theta s * dt = - (xx + (vv + a * dt) * cos_theta s * dt)"
    by (simp add: algebra_simps)
  have l: "advance_spec k grav mu dt (- xx) (- vv) =
      (- (xx + (vv + a * dt) * cos_theta s * dt),
       TrackModel_height k (xx + (vv + a * dt) * cos_theta s * dt), - (vv + a * dt))"
    unfolding advance_spec_def Let_def TrackModel_slope_minus s_def [symmetric]
      cos_theta_minus a' v' x' TrackModel_height_minus ..
  have r: "advance_spec k grav mu dt xx vv =
      (xx + (vv + a * dt) * cos_theta s * dt,
       TrackModel_height k (xx + (vv + a * dt) * cos_theta s * dt), vv + a * dt)"
    unfolding advance_spec_def Let_def s_def [symmetric] a_def [symmetric] ..
  show ?thesis by (simp add: l r)
qed

lemma advance_spec_rest: "advance_spec k grav mu dt 0 0 = (0, 0, 0)"
  by (simp add: advance_spec_def Let_def TrackModel_slope_def TrackModel_height_def
      sin_theta_def)

lemma subStepLoop_funpow:
  "subStepLoop i n dt w = ((updatePhysics dt) ^^ (n - i)) w"
proof (induction i n dt w rule: subStepLoop.induct)
  case (1 i subSteps subDt w)
  show ?case
  proof (cases "i < subSteps")
    case True
    then have "subSteps - i = Suc (subSteps - Suc i)" by simp
    with True 1 show ?thesis
      by (simp add: subStepLoop.simps [of i] funpow_swap1)
  next
    case False
    then show ?thesis by (simp add: subStepLoop.simps [of i])
  qed
qed

lemma frame_dt_le: "frame_dt ts w \<le> 0.1"
  by (simp add: frame_dt_def Let_def)

lemma on_track_updatePositionFromX: "on_track (updatePositionFromX w)"
  by (simp add: on_track_def updatePositionFromX_def power2_eq_square)

lemma on_track_updatePhysics: "on_track (updatePhysics dt w)"
  by (simp add: updatePhysics_def Let_def on_track_updatePositionFromX)

lemma updateCharts_keeps:
  "state_x (fst (updateCharts w)) = state_x w"
  "state_y (fst (updateCharts w)) = state_y w"
  "state_v (fst (updateCharts w)) = state_v w"
  "state_trackScale (fst (updateCharts w)) = state_trackScale w"
  "dragging (fst (updateCharts w)) = dragging w"
  "simRunning (fst (updateCharts w)) = simRunning w"
  by (simp_all add: updateCharts_def Let_def)

lemma on_track_updateCharts: "on_track (fst (updateCharts w)) = on_track w"
  by (simp add: on_track_def updateCharts_keeps)

lemma on_track_funpow: "on_track w \<Longrightarrow> on_track (((updatePhysics dt) ^^ n) w)"
  by (induction n) (simp_all add: on_track_updatePhysics)

lemma on_track_resetSimulation: "on_track (resetSimulation w)"
  unfolding resetSimulation_def Let_def on_track_updateCharts
  by (simp add: on_track_def updatePositionFromX_def power2_eq_square)

lemma on_track_drag_held: "dragging w \<Longrightarrow> on_track (drag e w)"
proof -
  assume "dragging w"
  then have eq: "drag e w = fst (updateCharts ((updatePositionFromX
      (w\<lparr> state_x := clientX e - rect_left e - canvas_width w / 2 \<rparr>))
        \<lparr> state_thermalEnergy := 0, state_initialTotalEnergy := 0 \<rparr>))"
    by (simp add: drag_def Let_def)
  show ?thesis
    by (simp only: eq on_track_updateCharts)
       (simp add: on_track_def updatePositionFromX_def power2_eq_square)
qed

lemma on_track_drag: "on_track w \<Longrightarrow> on_track (drag e w)"
  by (cases "dragging w") (simp_all add: on_track_drag_held, simp add: drag_def)

lemma on_track_loop: "on_track w \<Longrightarrow> on_track (fst (loop ts w))"
proof -
  assume a: "on_track w"
  then have b: "on_track (w\<lparr> lastTime := ts \<rparr>)" by (simp add: on_track_def)
  show ?thesis
    by (simp add: loop_def Let_def split_def subStepLoop_funpow on_track_updateCharts
        on_track_funpow [OF b] b)
qed

lemma on_track_handle: "on_track w \<Longrightarrow> on_track (handle ev w)"
proof (cases ev)
  case (Frame ts)
  assume "on_track w"
  then show ?thesis using Frame by (simp add: on_track_loop)
next
  case (MouseDown e)
  assume "on_track w"
  then show ?thesis using MouseDown by (simp add: startDrag_def on_track_def)
next
  case (MouseMove e)
  assume "on_track w"
  then show ?thesis using MouseMove by (simp add: on_track_drag)
next
  case ClickReset
  then show ?thesis by (simp add: on_track_resetSimulation)
qed (simp_all add: on_track_def endDrag_def clickStartPause_def changeToggleFriction_def
      inputSliderFriction_def inputSliderGravity_def resize_def Let_def)

lemma on_track_run: "on_track w \<Longrightarrow> on_track (run evs w)"
  by (induction evs arbitrary: w) (simp_all add: on_track_handle)

lemma page0_eq:
  "page0 = \<lparr> state_x = - 100, state_y = 50, state_v = 0, state_mass = 1, state_gravity = 9.8,
       state_friction = 0, state_thermalEnergy = 0, state_initialTotalEnergy = 4.9,
       state_trackScale = 0.005, state_pixelsPerMeter = 100,
       simRunning = False, dragging = False, lastTime = 0,
       canvas_width = 800, canvas_height = 600,
       toggleFriction_checked = False, sliderFriction_value = 0.1,
       sliderGravity_value = 9.8 \<rparr>"
  by (simp add: page0_def boot_def state0_def resize_def resetSimulation_def
      updatePositionFromX_def updateCharts_def lazy_capture_def truthy_def pe_of_def
      ke_of_def scaleE_def Let_def)

lemma page_g0_eq:
  "page_g0 = \<lparr> state_x = - 100, state_y = 50, state_v = 0, state_mass = 1, state_gravity = 0,
       state_friction = 0, state_thermalEnergy = 0, state_initialTotalEnergy = 0,
       state_trackScale = 0.005, state_pixelsPerMeter = 100,
       simRunning = False, dragging = False, lastTime = 0,
       canvas_width = 800, canvas_height = 600,
       toggleFriction_checked = False, sliderFriction_value = 0.1,
       sliderGravity_value = 0 \<rparr>"
  by (simp add: page_g0_def boot_def state0_def resize_def resetSimulation_def
      updatePositionFromX_def updateCharts_def lazy_capture_def truthy_def pe_of_def
      ke_of_def scaleE_def Let_def)

subsection \<open>Auxiliary facts about the energy ledger and the handlers\<close>

lemma updateCharts_baseline:
  "state_initialTotalEnergy (fst (updateCharts w)) =
     (if dragging w then pe_of w + ke_of w
      else if lazy_capture w then pe_of w + ke_of w
      else state_initialTotalEnergy w)"
  by (simp add: updateCharts_def Let_def)

lemma updateCharts_thermalEnergy:
  "state_thermalEnergy (fst (updateCharts w)) =
     (if dragging w then 0 else state_thermalEnergy w)"
  by (simp add: updateCharts_def Let_def)

lemma updateCharts_world:
  "fst (updateCharts w) =
     w\<lparr> state_initialTotalEnergy := state_initialTotalEnergy (fst (updateCharts w)),
        state_thermalEnergy := state_thermalEnergy (fst (updateCharts w)) \<rparr>"
  by (simp add: updateCharts_def Let_def)

lemma updateCharts_thermal:
  "r_thermal (snd (updateCharts w)) =
     (if state_initialTotalEnergy (fst (updateCharts w)) = 0 then 0
      else max 0 (state_initialTotalEnergy (fst (updateCharts w)) - (pe_of w + ke_of w)))"
  by (simp add: updateCharts_def Let_def truthy_def max_def)

lemma updateCharts_dragging_thermal:
  "dragging w \<Longrightarrow> r_thermal (snd (updateCharts w)) = 0"
  by (simp add: updateCharts_def Let_def)

lemma updateCharts_total:
  "r_total (snd (updateCharts w)) = pe_of w + ke_of w + r_thermal (snd (updateCharts w))"
  "r_pe (snd (updateCharts w)) = pe_of w"
  "r_ke (snd (updateCharts w)) = ke_of w"
  by (simp_all add: updateCharts_def Let_def)

lemma loop_not_running:
  assumes "mode_of w \<noteq> Running"
  shows "fst (loop ts w) = fst (updateCharts (w\<lparr> lastTime := ts \<rparr>))"
    and "snd (snd (loop ts w)) = snd (updateCharts (w\<lparr> lastTime := ts \<rparr>))"
proof -
  from assms have "\<not> (simRunning w \<and> \<not> dragging w)"
    by (auto simp add: mode_of_def split: if_splits)
  then show "fst (loop ts w) = fst (updateCharts (w\<lparr> lastTime := ts \<rparr>))"
    and "snd (snd (loop ts w)) = snd (updateCharts (w\<lparr> lastTime := ts \<rparr>))"
    by (auto simp add: loop_def Let_def split_def)
qed

lemma pe_ke_lastTime:
  "pe_of (w\<lparr> lastTime := ts \<rparr>) = pe_of w" "ke_of (w\<lparr> lastTime := ts \<rparr>) = ke_of w"
  by (simp_all add: pe_of_def ke_of_def)

lemma pe_ke_updateCharts:
  "pe_of (fst (updateCharts w)) = pe_of w" "ke_of (fst (updateCharts w)) = ke_of w"
  by (simp_all add: pe_of_def ke_of_def updateCharts_def Let_def)

lemma drag_held:
  "dragging w \<Longrightarrow> drag e w = fst (updateCharts ((updatePositionFromX
      (w\<lparr> state_x := clientX e - rect_left e - canvas_width w / 2 \<rparr>))
        \<lparr> state_thermalEnergy := 0, state_initialTotalEnergy := 0 \<rparr>))"
  by (simp add: drag_def Let_def)

lemma grab_pt_page0: "grab_dist grab_pt page0 = 0"
  by (simp add: page0_eq grab_dist_def grab_pt_def hypot_def Let_def)

lemma grab_pt_page_g0: "grab_dist grab_pt page_g0 = 0"
  by (simp add: page_g0_eq grab_dist_def grab_pt_def hypot_def Let_def)

lemma page0_energy: "pe_of page0 = 4.9" "ke_of page0 = 0"
  by (simp_all add: page0_eq pe_of_def ke_of_def scaleE_def)

lemma page_g0_energy: "pe_of page_g0 = 0" "ke_of page_g0 = 0"
  by (simp_all add: page_g0_eq pe_of_def ke_of_def scaleE_def)

lemma resetSimulation_alt:
  "resetSimulation w =
     fst (updateCharts (w\<lparr> state_x := - 100, state_v := 0, state_thermalEnergy := 0,
                  state_initialTotalEnergy := 0,
                  state_friction := (if toggleFriction_checked w
                                     then sliderFriction_value w else 0),
                  state_gravity := sliderGravity_value w,
                  state_y := state_trackScale w * (- 100) * (- 100),
                  simRunning := False \<rparr>))"
  by (simp add: resetSimulation_def updatePositionFromX_def Let_def)

lemma resetSimulation_twice: "resetSimulation (resetSimulation w) = resetSimulation w"
proof -
  define u where "u = w\<lparr> state_x := - 100, state_v := 0, state_thermalEnergy := 0,
                  state_initialTotalEnergy := 0,
                  state_friction := (if toggleFriction_checked w
                                     then sliderFriction_value w else 0),
                  state_gravity := sliderGravity_value w,
                  state_y := state_trackScale w * (- 100) * (- 100),
                  simRunning := False \<rparr>"
  define E where "E = state_initialTotalEnergy (fst (updateCharts u))"
  define T where "T = state_thermalEnergy (fst (updateCharts u))"
  have r: "resetSimulation w = fst (updateCharts u)"
    unfolding u_def by (rule resetSimulation_alt)
  have f: "fst (updateCharts u) = u\<lparr> state_initialTotalEnergy := E, state_thermalEnergy := T \<rparr>"
    unfolding E_def T_def by (rule updateCharts_world)
  have "resetSimulation (u\<lparr> state_initialTotalEnergy := E, state_thermalEnergy := T \<rparr>)
          = fst (updateCharts u)"
    by (subst resetSimulation_alt) (simp add: u_def)
  then show ?thesis by (simp add: r f [symmetric])
qed

lemma resetSimulation_fields:
  "state_x (resetSimulation w) = - 100"
  "state_y (resetSimulation w) = state_trackScale w * (- 100) ^ 2"
  "state_v (resetSimulation w) = 0"
  "simRunning (resetSimulation w) = False"
  "dragging (resetSimulation w) = dragging w"
  "state_thermalEnergy (resetSimulation w) = 0"
  by (simp_all add: resetSimulation_alt updateCharts_keeps updateCharts_thermalEnergy
      power2_eq_square)

lemma resetSimulation_baseline:
  "\<not> dragging w \<Longrightarrow>
     state_initialTotalEnergy (resetSimulation w)
       = max 0 (pe_of (resetSimulation w) + ke_of (resetSimulation w))"
  by (simp add: resetSimulation_alt pe_ke_updateCharts updateCharts_baseline lazy_capture_def
      truthy_def max_def)

lemma page0_reset: "resetSimulation page0 = page0"
  by (simp add: page0_def boot_def resetSimulation_twice)

lemma startDrag_page0:
  "startDrag grab_pt page0 = page0\<lparr> dragging := True, simRunning := False, state_v := 0 \<rparr>"
  by (simp add: startDrag_def grab_pt_page0)

lemma c2_dragged_eq:
  "c2_dragged = page_g0\<lparr> dragging := True, simRunning := False, state_v := 0 \<rparr>"
  by (simp add: c2_dragged_def startDrag_def grab_pt_page_g0)

lemma c2_dragged_facts:
  "dragging c2_dragged" "mode_of c2_dragged \<noteq> Running"
  "pe_of c2_dragged = 0" "ke_of c2_dragged = 0"
  by (simp_all add: c2_dragged_eq mode_of_def pe_of_def ke_of_def) (simp add: page_g0_eq)

lemma c2_frame16:
  "fst (loop 16 c2_dragged) =
     c2_dragged\<lparr> lastTime := 16, state_initialTotalEnergy := 0, state_thermalEnergy := 0 \<rparr>"
proof -
  have "fst (loop 16 c2_dragged) = fst (updateCharts (c2_dragged\<lparr> lastTime := 16 \<rparr>))"
    by (rule loop_not_running [OF c2_dragged_facts(2)])
  also have "\<dots> = c2_dragged\<lparr> lastTime := 16,
      state_initialTotalEnergy := state_initialTotalEnergy (fst (updateCharts (c2_dragged\<lparr> lastTime := 16 \<rparr>))),
      state_thermalEnergy := state_thermalEnergy (fst (updateCharts (c2_dragged\<lparr> lastTime := 16 \<rparr>))) \<rparr>"
    by (rule updateCharts_world)
  also have "\<dots> = c2_dragged\<lparr> lastTime := 16, state_initialTotalEnergy := 0, state_thermalEnergy := 0 \<rparr>"
    by (simp add: updateCharts_baseline updateCharts_thermalEnergy pe_ke_lastTime c2_dragged_facts)
  finally show ?thesis .
qed

lemma c2_released_eq:
  "c2_released = c2_dragged\<lparr> lastTime := 16, state_initialTotalEnergy := 0,
      state_thermalEnergy := 0, dragging := False, sliderGravity_value := 9.8,
      state_gravity := 9.8 \<rparr>"
  by (simp add: c2_released_def c2_frame16 endDrag_def inputSliderGravity_def Let_def)

lemma c2_released_facts:
  "\<not> dragging c2_released" "mode_of c2_released \<noteq> Running"
  "state_initialTotalEnergy c2_released = 0"
  "pe_of c2_released = 4.9" "ke_of c2_released = 0"
  by (simp_all add: c2_released_eq mode_of_def pe_of_def ke_of_def scaleE_def c2_dragged_eq)
     (simp_all add: page_g0_eq)


lemma trackScale_updatePhysics: "state_trackScale (updatePhysics dt w) = state_trackScale w"
  by (simp add: updatePhysics_def updatePositionFromX_def Let_def)

lemma trackScale_funpow:
  "state_trackScale (((updatePhysics dt) ^^ n) w) = state_trackScale w"
  by (induction n) (simp_all add: trackScale_updatePhysics)

lemma trackScale_loop: "state_trackScale (fst (loop ts w)) = state_trackScale w"
  by (simp add: loop_def Let_def split_def subStepLoop_funpow updateCharts_keeps
      trackScale_funpow)

lemma trackScale_resetSimulation:
  "state_trackScale (resetSimulation w) = state_trackScale w"
  by (simp add: resetSimulation_alt updateCharts_keeps)

lemma trackScale_drag: "state_trackScale (drag e w) = state_trackScale w"
  by (cases "dragging w") (simp_all add: drag_held updateCharts_keeps updatePositionFromX_def,
      simp add: drag_def)

lemma trackScale_handle: "state_trackScale (handle ev w) = state_trackScale w"
  by (cases ev) (simp_all add: trackScale_loop trackScale_resetSimulation trackScale_drag
      startDrag_def endDrag_def clickStartPause_def changeToggleFriction_def
      inputSliderFriction_def inputSliderGravity_def resize_def Let_def)

lemma trackScale_run: "state_trackScale (run evs w) = state_trackScale w"
  by (induction evs arbitrary: w) (simp_all add: trackScale_handle)

lemma trackScale_boot: "state_trackScale (boot cw ch fchk fval gval) = 0.005"
  by (simp add: boot_def trackScale_resetSimulation resize_def state0_def)

lemma loop_dragging:
  assumes "dragging u"
  shows "fst (loop ts u) = fst (updateCharts (u\<lparr> lastTime := ts \<rparr>))"
    and "snd (snd (loop ts u)) = snd (updateCharts (u\<lparr> lastTime := ts \<rparr>))"
proof -
  from assms have "mode_of u \<noteq> Running" by (simp add: mode_of_def)
  then show "fst (loop ts u) = fst (updateCharts (u\<lparr> lastTime := ts \<rparr>))"
    and "snd (snd (loop ts u)) = snd (updateCharts (u\<lparr> lastTime := ts \<rparr>))"
    by (rule loop_not_running)+
qed

subsection \<open>The integrator\<close>

text \<open>
  Claim C3. One sub-step of length \<open>dt\<close> computes the slope \<open>2 * k * x\<close>, the sine
  \<open>slope / sqrt (1 + slope\<^sup>2)\<close> and the cosine \<open>1 / sqrt (1 + slope\<^sup>2)\<close> of the
  track angle and the tangential acceleration \<open>- (gravity * SCALE_G) * sin\<close>, adds
  \<open>- friction * v\<close> to it exactly when the friction coefficient is positive, updates the
  velocity first, \<open>v' = v + a * dt\<close>, then the position with the new velocity,
  \<open>x' = x + v' * cos * dt\<close>, and recomputes \<open>y' = k * x'\<^sup>2\<close>; nothing else of the
  state changes. This is the specification's \<open>advance\<close>.
\<close>

theorem updatePhysics_substep:
  "(let k = state_trackScale w;
        slope = 2 * k * state_x w;
        sinT = slope / sqrt (1 + slope ^ 2);
        cosT = 1 / sqrt (1 + slope ^ 2);
        a0 = - (state_gravity w * SCALE_G) * sinT;
        a = (if state_friction w > 0 then a0 + - state_friction w * state_v w else a0);
        v' = state_v w + a * dt;
        x' = state_x w + v' * cosT * dt;
        y' = k * x' ^ 2
    in updatePhysics dt w = w\<lparr> state_v := v', state_x := x', state_y := y' \<rparr>
       \<and> advance_spec k (state_gravity w) (state_friction w) dt (state_x w) (state_v w)
           = (x', y', v'))"
  by (simp add: updatePhysics_def updatePositionFromX_def advance_spec_def Let_def
      TrackModel_slope_def TrackModel_height_def sin_theta_def cos_theta_def SCALE_G_def
      power2_eq_square)

text \<open>
  Claim C10. The sub-step is odd under reflection: started from \<open>(- x, - v)\<close> it ends in
  the negated position and velocity of the sub-step started from \<open>(x, v)\<close>, with the same
  height and everything else equal, for every step length, gravity and friction; and
  the mass at rest at the bottom of the track stays there.
\<close>

theorem updatePhysics_odd:
  "updatePhysics dt (w\<lparr> state_x := - state_x w, state_v := - state_v w \<rparr>) =
     (updatePhysics dt w)\<lparr> state_x := - state_x (updatePhysics dt w),
                            state_v := - state_v (updatePhysics dt w) \<rparr>
   \<and> updatePhysics dt (w\<lparr> state_x := 0, state_y := 0, state_v := 0 \<rparr>) =
       w\<lparr> state_x := 0, state_y := 0, state_v := 0 \<rparr>"
  by (simp add: updatePhysics_advance advance_spec_odd advance_spec_rest split_def)

subsection \<open>The energy ledger\<close>

text \<open>
  Claim C4. The thermal energy that the ledger reports is never negative, whatever the
  state: a negative residual is replaced by zero. The same holds for the report of
  every frame.
\<close>

theorem thermal_nonneg:
  "0 \<le> r_thermal (snd (updateCharts w))
   \<and> 0 \<le> r_thermal (snd (snd (loop timestamp w)))"
  by (simp add: loop_def updateCharts_def Let_def split_def)

text \<open>
  Claim C9. The denominator of the energy bars is the larger of the total energy and
  10: it is at least 10 and so never zero.
\<close>

theorem maxE_denominator:
  "r_maxE (snd (updateCharts w)) = max (r_total (snd (updateCharts w))) 10
   \<and> 10 \<le> r_maxE (snd (updateCharts w))
   \<and> r_maxE (snd (updateCharts w)) \<noteq> 0
   \<and> barPotential_width (snd (updateCharts w))
       = (r_pe (snd (updateCharts w)) / max (r_total (snd (updateCharts w))) 10) * 100"
  by (simp add: updateCharts_def barPotential_width_def Let_def)

subsection \<open>The frame driver\<close>

text \<open>
  Claim C5. A frame clamps the elapsed time to at most 0.1 seconds and divides it into
  10 equal sub-steps, each of at most 0.01 seconds. The 10 sub-steps of the integrator
  run only when the controller is Running; the ball is drawn and the energies are
  computed from the resulting state in every frame, whatever the mode.
\<close>

theorem loop_frame:
  "frame_dt ts w = min ((ts - (if lastTime w = 0 then ts else lastTime w)) / 1000) 0.1
   \<and> frame_dt ts w \<le> 0.1
   \<and> frame_dt ts w / 10 \<le> 0.01
   \<and> loop ts w =
      (let w2 = (if mode_of w = Running
                 then ((updatePhysics (frame_dt ts w / 10)) ^^ 10) (w\<lparr> lastTime := ts \<rparr>)
                 else w\<lparr> lastTime := ts \<rparr>)
       in (fst (updateCharts w2), draw w2, snd (updateCharts w2)))"
proof -
  have a: "frame_dt ts w = min ((ts - (if lastTime w = 0 then ts else lastTime w)) / 1000) 0.1"
    by (simp add: frame_dt_def Let_def truthy_def min_def)
  have b: "frame_dt ts w \<le> 0.1" by (rule frame_dt_le)
  have c: "frame_dt ts w / 10 \<le> 0.01" using b by simp
  have d: "loop ts w =
      (let w2 = (if mode_of w = Running
                 then ((updatePhysics (frame_dt ts w / 10)) ^^ 10) (w\<lparr> lastTime := ts \<rparr>)
                 else w\<lparr> lastTime := ts \<rparr>)
       in (fst (updateCharts w2), draw w2, snd (updateCharts w2)))"
    by (simp add: loop_def Let_def mode_of_def subStepLoop_funpow split_def)
  from a b c d show ?thesis by blast
qed

subsection \<open>The height follows the position\<close>

text \<open>
  Claim C7. After every event that the page can receive, from the moment the script has
  run, the height is \<open>trackScale * x\<^sup>2\<close>, with the curvature fixed at 0.005: the
  integration sub-step, the drag and the reset recompute the height from the new
  position, whatever the state before, and nothing else changes the position or the
  height.
\<close>

theorem height_follows_position:
  "state_y (run evs (boot cw ch fchk fval gval)) =
     state_trackScale (run evs (boot cw ch fchk fval gval))
       * (state_x (run evs (boot cw ch fchk fval gval))) ^ 2
   \<and> state_trackScale (run evs (boot cw ch fchk fval gval)) = 0.005
   \<and> on_track (updatePhysics dt w)
   \<and> on_track (drag e (w\<lparr> dragging := True \<rparr>))
   \<and> on_track (resetSimulation w)"
proof -
  have "on_track (run evs (boot cw ch fchk fval gval))"
    by (simp add: on_track_run boot_def on_track_resetSimulation)
  then have a: "state_y (run evs (boot cw ch fchk fval gval)) =
     state_trackScale (run evs (boot cw ch fchk fval gval))
       * (state_x (run evs (boot cw ch fchk fval gval))) ^ 2"
    by (simp only: on_track_def)
  have b: "state_trackScale (run evs (boot cw ch fchk fval gval)) = 0.005"
    by (simp only: trackScale_run trackScale_boot)
  have c: "on_track (drag e (w\<lparr> dragging := True \<rparr>))"
    by (rule on_track_drag_held) simp
  from a b c on_track_updatePhysics [of dt w] on_track_resetSimulation [of w]
  show ?thesis by blast
qed

subsection \<open>Total energy and baseline\<close>

text \<open>
  Claim C1, as the code has it. When a baseline is stored and the user is not dragging,
  the report satisfies total = potential + kinetic + thermal with thermal =
  max(0, baseline - (potential + kinetic)). When potential + kinetic is at least the
  baseline, the thermal energy is 0 and the total is potential + kinetic, above the
  baseline when that sum is. When potential + kinetic is below the baseline, the
  thermal energy is the positive residual baseline - (potential + kinetic) and the
  total is at least potential + kinetic. In this second case the total is the sum
  (potential + kinetic) + (baseline - (potential + kinetic)): in exact arithmetic that
  is the baseline, but the script adds and subtracts doubles, which round, so the
  equality with the baseline is not part of the statement.
\<close>

theorem total_energy_report:
  assumes "truthy (state_initialTotalEnergy (fst (updateCharts w)))" and "\<not> dragging w"
  shows "(let rep = snd (updateCharts w); E0 = state_initialTotalEnergy (fst (updateCharts w));
              s = r_pe rep + r_ke rep
          in r_total rep = r_pe rep + r_ke rep + r_thermal rep
             \<and> r_thermal rep = max 0 (E0 - s)
             \<and> (E0 \<le> s \<longrightarrow> r_thermal rep = 0 \<and> r_total rep = s)
             \<and> (s < E0 \<longrightarrow> r_thermal rep = E0 - s \<and> 0 < r_thermal rep \<and> s \<le> r_total rep))"
  using assms by (auto simp add: updateCharts_def Let_def max_def split: if_splits)

text \<open>
  The page right after the script has run, where potential + kinetic is the baseline
  4.9, and the same page with the gravity slider moved down to 4.9, where potential +
  kinetic is 2.45 and the thermal energy 2.45.
\<close>

theorem total_energy_report_witness:
  "truthy (state_initialTotalEnergy (fst (updateCharts page0))) \<and> \<not> dragging page0
   \<and> state_initialTotalEnergy (fst (updateCharts page0))
        \<le> r_pe (snd (updateCharts page0)) + r_ke (snd (updateCharts page0))
   \<and> r_thermal (snd (updateCharts page0)) = 0
   \<and> r_total (snd (updateCharts page0)) = 4.9
   \<and> truthy (state_initialTotalEnergy (fst (updateCharts (inputSliderGravity 4.9 page0))))
   \<and> \<not> dragging (inputSliderGravity 4.9 page0)
   \<and> r_pe (snd (updateCharts (inputSliderGravity 4.9 page0)))
        + r_ke (snd (updateCharts (inputSliderGravity 4.9 page0)))
        < state_initialTotalEnergy (fst (updateCharts (inputSliderGravity 4.9 page0)))
   \<and> r_thermal (snd (updateCharts (inputSliderGravity 4.9 page0))) = 2.45
   \<and> 2.45 \<le> r_total (snd (updateCharts (inputSliderGravity 4.9 page0)))"
proof -
  define q where "q = inputSliderGravity 4.9 page0"
  have p: "\<not> dragging page0" "state_initialTotalEnergy page0 = 4.9"
    by (simp_all add: page0_eq)
  have v: "state_initialTotalEnergy (fst (updateCharts page0)) = 4.9"
     "r_pe (snd (updateCharts page0)) = 4.9" "r_ke (snd (updateCharts page0)) = 0"
    by (simp_all add: updateCharts_baseline updateCharts_total lazy_capture_def truthy_def p
        page0_energy)
  have h1: "truthy (state_initialTotalEnergy (fst (updateCharts page0)))"
    by (simp add: v truthy_def)
  have le: "state_initialTotalEnergy (fst (updateCharts page0))
        \<le> r_pe (snd (updateCharts page0)) + r_ke (snd (updateCharts page0))"
    by (simp add: v)
  from total_energy_report [OF h1 p(1)] le
  have a: "r_thermal (snd (updateCharts page0)) = 0"
    and "r_total (snd (updateCharts page0))
           = r_pe (snd (updateCharts page0)) + r_ke (snd (updateCharts page0))"
    unfolding Let_def by blast+
  then have b: "r_total (snd (updateCharts page0)) = 4.9" by (simp add: v)
  have pq: "\<not> dragging q" "state_initialTotalEnergy q = 4.9" "pe_of q = 2.45" "ke_of q = 0"
    by (simp_all add: q_def inputSliderGravity_def Let_def pe_of_def ke_of_def scaleE_def
        page0_eq)
  have vq: "state_initialTotalEnergy (fst (updateCharts q)) = 4.9"
     "r_pe (snd (updateCharts q)) = 2.45" "r_ke (snd (updateCharts q)) = 0"
    by (simp_all add: updateCharts_baseline updateCharts_total lazy_capture_def truthy_def pq)
  have h2: "truthy (state_initialTotalEnergy (fst (updateCharts q)))"
    by (simp add: vq truthy_def)
  have lt: "r_pe (snd (updateCharts q)) + r_ke (snd (updateCharts q))
        < state_initialTotalEnergy (fst (updateCharts q))"
    by (simp add: vq)
  from total_energy_report [OF h2 pq(1)] lt
  have "r_thermal (snd (updateCharts q)) = state_initialTotalEnergy (fst (updateCharts q))
          - (r_pe (snd (updateCharts q)) + r_ke (snd (updateCharts q)))"
    and "r_pe (snd (updateCharts q)) + r_ke (snd (updateCharts q))
          \<le> r_total (snd (updateCharts q))"
    unfolding Let_def by blast+
  then have c: "r_thermal (snd (updateCharts q)) = 2.45"
    and d: "2.45 \<le> r_total (snd (updateCharts q))"
    by (simp_all add: vq)
  from h1 p(1) le a b h2 pq(1) lt c d show ?thesis unfolding q_def by blast
qed

text \<open>
  The claim as written fails when potential + kinetic exceeds the baseline. The gravity
  slider is moved from 9.8 to 20 on the fresh page: in the next frame the baseline is
  still 4.9, nobody drags, and the total shown is 10.
\<close>

theorem total_exceeds_baseline:
  "truthy (state_initialTotalEnergy (fst (loop 16 (inputSliderGravity 20 page0))))
   \<and> \<not> dragging (fst (loop 16 (inputSliderGravity 20 page0)))
   \<and> state_initialTotalEnergy (fst (loop 16 (inputSliderGravity 20 page0))) = 4.9
   \<and> r_total (snd (snd (loop 16 (inputSliderGravity 20 page0)))) = 10"
proof -
  define w1 where "w1 = (inputSliderGravity 20 page0)\<lparr> lastTime := 16 \<rparr>"
  have m: "mode_of (inputSliderGravity 20 page0) \<noteq> Running"
    by (simp add: mode_of_def inputSliderGravity_def Let_def page0_eq)
  have l: "fst (loop 16 (inputSliderGravity 20 page0)) = fst (updateCharts w1)"
    "snd (snd (loop 16 (inputSliderGravity 20 page0))) = snd (updateCharts w1)"
    unfolding w1_def by (rule loop_not_running [OF m])+
  have e: "pe_of w1 = 10" "ke_of w1 = 0" "state_initialTotalEnergy w1 = 4.9" "\<not> dragging w1"
    by (simp_all add: w1_def inputSliderGravity_def Let_def pe_of_def ke_of_def scaleE_def
        page0_eq)
  have i: "state_initialTotalEnergy (fst (updateCharts w1)) = 4.9"
    by (simp add: updateCharts_baseline lazy_capture_def truthy_def e)
  have t: "r_total (snd (updateCharts w1)) = 10"
    by (simp add: updateCharts_total updateCharts_thermal i e)
  have d: "\<not> dragging (fst (updateCharts w1))"
    by (simp add: updateCharts_keeps e)
  from i have tr: "truthy (state_initialTotalEnergy (fst (updateCharts w1)))"
    by (simp add: truthy_def)
  from i t d tr show ?thesis unfolding l by blast
qed

subsection \<open>The unset baseline\<close>

text \<open>
  Claim C2, as the code has it. The code has no value for an unset baseline apart from
  the number zero: while nobody drags, the lazy capture fires exactly when the stored
  baseline is 0 and potential + kinetic is positive, and it stores that sum. So a
  reading of zero never triggers a capture and a nonzero baseline is never replaced; a
  stored baseline of 0 is replaced at the next positive reading.
\<close>

theorem lazy_capture_condition:
  assumes "\<not> dragging w"
  shows "lazy_capture w = (state_initialTotalEnergy w = 0 \<and> pe_of w + ke_of w > 0)
     \<and> state_initialTotalEnergy (fst (updateCharts w)) =
         (if state_initialTotalEnergy w = 0 \<and> pe_of w + ke_of w > 0
          then pe_of w + ke_of w else state_initialTotalEnergy w)"
  using assms by (simp add: updateCharts_baseline lazy_capture_def truthy_def)

text \<open>The fresh page with gravity 0: the reading is zero and nothing is captured.\<close>

theorem lazy_capture_condition_witness:
  "\<not> dragging page_g0
   \<and> pe_of page_g0 + ke_of page_g0 = 0
   \<and> \<not> lazy_capture page_g0
   \<and> state_initialTotalEnergy (fst (updateCharts page_g0)) = 0"
proof -
  have h: "\<not> dragging page_g0" by (simp add: page_g0_eq)
  have e: "pe_of page_g0 + ke_of page_g0 = 0" "state_initialTotalEnergy page_g0 = 0"
    by (simp_all add: page_g0_energy) (simp add: page_g0_eq)
  from lazy_capture_condition [OF h] have "\<not> lazy_capture page_g0"
    and "state_initialTotalEnergy (fst (updateCharts page_g0)) = 0"
    by (simp_all add: e)
  with h e(1) show ?thesis by blast
qed

text \<open>
  The claim as written fails for a baseline whose value is zero. On the page with
  gravity 0 the ball is grabbed; the frame that follows stores potential + kinetic = 0
  as the baseline of the drag. After the release the gravity slider is moved to 9.8,
  and the next frame captures a baseline again, 4.9.
\<close>

theorem zero_baseline_recaptured:
  "dragging c2_dragged
   \<and> pe_of c2_dragged + ke_of c2_dragged = 0
   \<and> state_initialTotalEnergy (fst (loop 16 c2_dragged)) = 0
   \<and> \<not> dragging c2_released
   \<and> state_initialTotalEnergy c2_released = 0
   \<and> lazy_capture c2_released
   \<and> state_initialTotalEnergy (fst (loop 32 c2_released)) = 4.9"
proof -
  have 1: "dragging c2_dragged" by (rule c2_dragged_facts)
  have 2: "pe_of c2_dragged + ke_of c2_dragged = 0"
    by (simp add: c2_dragged_facts)
  have 3: "state_initialTotalEnergy (fst (loop 16 c2_dragged)) = 0"
    by (simp add: c2_frame16)
  have 5: "lazy_capture c2_released"
    by (simp add: lazy_capture_def truthy_def c2_released_facts)
  have "state_initialTotalEnergy (fst (loop 32 c2_released))
          = state_initialTotalEnergy (fst (updateCharts (c2_released\<lparr> lastTime := 32 \<rparr>)))"
    by (simp only: loop_not_running [OF c2_released_facts(2)])
  also have "\<dots> = 4.9"
    by (simp add: updateCharts_baseline lazy_capture_def truthy_def pe_ke_lastTime
        c2_released_facts)
  finally have 6: "state_initialTotalEnergy (fst (loop 32 c2_released)) = 4.9" .
  from 1 2 3 c2_released_facts(1,3) 5 6 show ?thesis by blast
qed

subsection \<open>Grabbing the ball\<close>

text \<open>
  Claim C6, as the code has it. A grab at a distance below 40 pixels from the centre of
  the ball sets the dragging flag, clears the running flag and zeroes the velocity; it
  leaves the baseline as it was. In every state with the dragging flag set, also when
  the start button has been pressed since the grab, a frame and a move of the pointer
  each end with the baseline equal to the potential + kinetic energy of that moment,
  the thermal energy shown in a frame is 0, and the release keeps the baseline.
\<close>

theorem grab_enters_dragging:
  assumes "grab_dist e w < 40" and "dragging u"
  shows "startDrag e w = w\<lparr> dragging := True, simRunning := False, state_v := 0 \<rparr>
     \<and> mode_of (startDrag e w) = Dragging
     \<and> state_initialTotalEnergy (startDrag e w) = state_initialTotalEnergy w
     \<and> state_initialTotalEnergy (fst (loop ts u)) = pe_of u + ke_of u
     \<and> state_initialTotalEnergy (fst (loop ts u))
         = pe_of (fst (loop ts u)) + ke_of (fst (loop ts u))
     \<and> r_thermal (snd (snd (loop ts u))) = 0
     \<and> state_initialTotalEnergy (drag e' u) = pe_of (drag e' u) + ke_of (drag e' u)
     \<and> state_initialTotalEnergy (endDrag (drag e' u)) = state_initialTotalEnergy (drag e' u)
     \<and> state_initialTotalEnergy (endDrag u) = state_initialTotalEnergy u"
proof -
  have s: "startDrag e w = w\<lparr> dragging := True, simRunning := False, state_v := 0 \<rparr>"
    using assms(1) by (simp add: startDrag_def)
  have 1: "mode_of (startDrag e w) = Dragging" by (simp add: s mode_of_def)
  have 2: "state_initialTotalEnergy (startDrag e w) = state_initialTotalEnergy w"
    by (simp add: s)
  have d: "dragging u" by (rule assms(2))
  have dl: "dragging (u\<lparr> lastTime := ts \<rparr>)" by (simp add: d)
  have 3: "state_initialTotalEnergy (fst (loop ts u)) = pe_of u + ke_of u"
    by (simp only: loop_dragging [OF d] updateCharts_baseline dl if_True pe_ke_lastTime)
  have 4: "pe_of (fst (loop ts u)) + ke_of (fst (loop ts u)) = pe_of u + ke_of u"
    by (simp only: loop_dragging [OF d] pe_ke_updateCharts pe_ke_lastTime)
  have 5: "r_thermal (snd (snd (loop ts u))) = 0"
    by (simp only: loop_dragging [OF d] updateCharts_dragging_thermal [OF dl])
  have 6: "state_initialTotalEnergy (drag e' u) = pe_of (drag e' u) + ke_of (drag e' u)"
    using d by (simp add: drag_held [OF d] updateCharts_baseline pe_ke_updateCharts
        updatePositionFromX_def)
  have 7: "state_initialTotalEnergy (endDrag (drag e' u)) = state_initialTotalEnergy (drag e' u)"
    "state_initialTotalEnergy (endDrag u) = state_initialTotalEnergy u"
    by (simp_all add: endDrag_def)
  from s 1 2 3 4 5 6 7 show ?thesis by simp
qed

text \<open>
  A grab at the centre of the ball on the started page with the ball at velocity 3, and
  a frame on the fresh page after a grab followed by a press of the start button.
\<close>

theorem grab_enters_dragging_witness:
  "grab_dist grab_pt ((clickStartPause page0)\<lparr> state_v := 3 \<rparr>) < 40
   \<and> dragging (clickStartPause (startDrag grab_pt page0))
   \<and> simRunning (clickStartPause (startDrag grab_pt page0))
   \<and> simRunning ((clickStartPause page0)\<lparr> state_v := 3 \<rparr>)
   \<and> mode_of (startDrag grab_pt ((clickStartPause page0)\<lparr> state_v := 3 \<rparr>)) = Dragging
   \<and> \<not> simRunning (startDrag grab_pt ((clickStartPause page0)\<lparr> state_v := 3 \<rparr>))
   \<and> state_v (startDrag grab_pt ((clickStartPause page0)\<lparr> state_v := 3 \<rparr>)) = 0
   \<and> state_initialTotalEnergy (startDrag grab_pt ((clickStartPause page0)\<lparr> state_v := 3 \<rparr>)) = 4.9
   \<and> state_initialTotalEnergy (fst (loop 16 (clickStartPause (startDrag grab_pt page0)))) = 4.9
   \<and> r_thermal (snd (snd (loop 16 (clickStartPause (startDrag grab_pt page0))))) = 0"
proof -
  define m where "m = (clickStartPause page0)\<lparr> state_v := 3 \<rparr>"
  define u where "u = clickStartPause (startDrag grab_pt page0)"
  have h: "grab_dist grab_pt m < 40"
    by (simp add: m_def clickStartPause_def page0_eq grab_dist_def grab_pt_def hypot_def Let_def)
  have ue: "u = page0\<lparr> dragging := True, simRunning := True, state_v := 0 \<rparr>"
    by (simp add: u_def startDrag_page0 clickStartPause_def)
  have d: "dragging u" "simRunning u" "pe_of u = 4.9" "ke_of u = 0"
    by (simp_all add: ue pe_of_def ke_of_def scaleE_def) (simp_all add: page0_eq)
  have mr: "simRunning m" "state_initialTotalEnergy m = 4.9"
    by (simp_all add: m_def clickStartPause_def page0_eq)
  from grab_enters_dragging [OF h d(1), of 16 grab_pt]
  have a: "startDrag grab_pt m = m\<lparr> dragging := True, simRunning := False, state_v := 0 \<rparr>"
    and b: "mode_of (startDrag grab_pt m) = Dragging"
    and c: "state_initialTotalEnergy (startDrag grab_pt m) = state_initialTotalEnergy m"
    and f: "state_initialTotalEnergy (fst (loop 16 u)) = pe_of u + ke_of u"
    and g: "r_thermal (snd (snd (loop 16 u))) = 0"
    by blast+
  from a have a': "\<not> simRunning (startDrag grab_pt m)" "state_v (startDrag grab_pt m) = 0"
    by simp_all
  from c have c': "state_initialTotalEnergy (startDrag grab_pt m) = 4.9" by (simp add: mr)
  from f have f': "state_initialTotalEnergy (fst (loop 16 u)) = 4.9" by (simp add: d)
  from h d(1,2) mr(1) b a' c' f' g show ?thesis unfolding m_def u_def by blast
qed

text \<open>
  The claim as written fails: after the grab on the fresh page the baseline is still
  4.9, and it is 4.9 after the next frame, with the ball still held.
\<close>

theorem grab_keeps_baseline:
  "grab_dist grab_pt page0 < 40
   \<and> dragging (startDrag grab_pt page0)
   \<and> state_initialTotalEnergy (startDrag grab_pt page0) = 4.9
   \<and> dragging (fst (loop 16 (startDrag grab_pt page0)))
   \<and> state_initialTotalEnergy (fst (loop 16 (startDrag grab_pt page0))) = 4.9"
proof -
  define g where "g = startDrag grab_pt page0"
  have h: "grab_dist grab_pt page0 < 40" by (simp add: grab_pt_page0)
  have ge: "g = page0\<lparr> dragging := True, simRunning := False, state_v := 0 \<rparr>"
    unfolding g_def by (rule startDrag_page0)
  have a: "dragging g" "state_initialTotalEnergy g = 4.9" "mode_of g \<noteq> Running"
    "pe_of g = 4.9" "ke_of g = 0"
    by (simp_all add: ge mode_of_def pe_of_def ke_of_def scaleE_def) (simp_all add: page0_eq)
  have l: "fst (loop 16 g) = fst (updateCharts (g\<lparr> lastTime := 16 \<rparr>))"
    by (rule loop_not_running [OF a(3)])
  have b: "dragging (fst (loop 16 g))"
    by (simp add: l updateCharts_keeps a)
  have c: "state_initialTotalEnergy (fst (loop 16 g)) = 4.9"
    by (simp add: l updateCharts_baseline pe_ke_lastTime a)
  from h a(1,2) b c show ?thesis unfolding g_def by blast
qed

subsection \<open>Reset\<close>

text \<open>
  Claim C8, as the code has it. A second reset changes nothing. After a reset the
  position is -100, the height is that of the track there, the velocity and the stored
  thermal energy are 0 and the running flag is off. When nobody drags, the controller
  is Idle and the baseline is the potential + kinetic energy of the start position if
  that is positive, and 0 otherwise: the reset clears the old baseline and its last
  statement, the energy report, captures the new one.
\<close>

theorem resetSimulation_idempotent:
  "resetSimulation (resetSimulation w) = resetSimulation w
   \<and> state_x (resetSimulation w) = - 100
   \<and> state_y (resetSimulation w) = state_trackScale w * (- 100) ^ 2
   \<and> state_v (resetSimulation w) = 0
   \<and> state_thermalEnergy (resetSimulation w) = 0
   \<and> \<not> simRunning (resetSimulation w)
   \<and> (\<not> dragging w \<longrightarrow>
        mode_of (resetSimulation w) = Idle
        \<and> state_initialTotalEnergy (resetSimulation w)
            = max 0 (pe_of (resetSimulation w) + ke_of (resetSimulation w)))"
  using resetSimulation_twice [of w] resetSimulation_fields [of w] resetSimulation_baseline [of w]
  by (simp add: mode_of_def)

text \<open>The fresh page.\<close>

theorem resetSimulation_idempotent_witness:
  "\<not> dragging page0 \<and> resetSimulation (resetSimulation page0) = resetSimulation page0
   \<and> mode_of (resetSimulation page0) = Idle
   \<and> state_x (resetSimulation page0) = - 100
   \<and> state_y (resetSimulation page0) = 50"
proof -
  have h: "\<not> dragging page0" by (simp add: page0_eq)
  have k: "state_trackScale page0 * (- 100) ^ 2 = 50" by (simp add: page0_eq)
  from resetSimulation_idempotent [of page0] h k show ?thesis by simp
qed

text \<open>
  The claim as written fails: after a reset of the fresh page the baseline is 4.9, not
  cleared; and a reset while the ball is held leaves the controller in Dragging.
\<close>

theorem reset_recaptures_baseline:
  "state_initialTotalEnergy (resetSimulation page0) = 4.9
   \<and> truthy (state_initialTotalEnergy (resetSimulation page0))
   \<and> mode_of (resetSimulation (startDrag grab_pt page0)) = Dragging"
proof -
  have a: "state_initialTotalEnergy (resetSimulation page0) = 4.9"
    by (simp add: page0_reset) (simp add: page0_eq)
  then have b: "truthy (state_initialTotalEnergy (resetSimulation page0))"
    by (simp add: truthy_def)
  have c: "mode_of (resetSimulation (startDrag grab_pt page0)) = Dragging"
    by (simp add: mode_of_def resetSimulation_fields startDrag_page0)
  from a b c show ?thesis by blast
qed

end
